theory Spec2Isabelle
  imports Main
begin

section \<open>Volume operation types: pkg/volume/util/types/types.go\<close>

subsection \<open>Go values: errors, panics and outcomes of calls\<close>

text \<open>
  \<^verbatim>\<open>type OperationTimedOutError struct { msg string }\<close>
\<close>

record OperationTimedOutError =
  msg :: string

text \<open>
  A value a goroutine panics with. \<open>NilDereference\<close> is the runtime error of reading a
  field through a nil pointer or calling a nil function value; \<open>PanicWith\<close> stands for
  any value handed to \<^verbatim>\<open>panic\<close> by user code.
\<close>

datatype panic_value = NilDereference | PanicWith string

text \<open>
  A non-nil value of the interface type \<^verbatim>\<open>error\<close> is a concrete type together with a
  value of it; one constructor per concrete kind:
  \<^item> \<open>TimedOutPtr p\<close>: concrete type \<^verbatim>\<open>*OperationTimedOutError\<close>, where \<open>p\<close> is the
    pointer (\<open>None\<close> is the nil pointer, \<open>Some r\<close> points to the struct \<open>r\<close>). Only
    the pointer type has the method \<^verbatim>\<open>Error\<close>, so the struct itself is never an error;
  \<^item> \<open>ErrorString m\<close>: a plain error with a message (\<^verbatim>\<open>errors.New\<close>);
  \<^item> \<open>WrapError m e\<close>: an error of another type that wraps the error \<open>e\<close>
    (\<^verbatim>\<open>fmt.Errorf\<close> with \<^verbatim>\<open>%w\<close>);
  \<^item> \<open>PanicError v\<close>: the error made of a recovered panic value.
  The interface value nil is \<open>None\<close>.
\<close>

datatype err_value =
    TimedOutPtr "OperationTimedOutError option"
  | ErrorString string
  | WrapError string err_value
  | PanicError panic_value

type_synonym error = "err_value option"

text \<open>A call either returns a value or panics.\<close>

datatype 'a outcome = Returns 'a | Panics panic_value

subsection \<open>The timeout error\<close>

text \<open>
  \<^verbatim>\<open>func (err *OperationTimedOutError) Error() string { return err.msg }\<close>
  The receiver is a pointer; reading \<^verbatim>\<open>err.msg\<close> through nil panics.
\<close>

definition Error :: "OperationTimedOutError option \<Rightarrow> string outcome" where
  "Error err = (case err of None \<Rightarrow> Panics NilDereference | Some r \<Rightarrow> Returns (msg r))"

text \<open>
  \<^verbatim>\<open>func NewOperationTimedOutError(msg string) *OperationTimedOutError {
      return &OperationTimedOutError{msg: msg} }\<close>
\<close>

definition NewOperationTimedOutError :: "string \<Rightarrow> OperationTimedOutError option" where
  "NewOperationTimedOutError m = Some \<lparr>msg = m\<rparr>"

text \<open>
  Storing a \<^verbatim>\<open>*OperationTimedOutError\<close> in a variable of type \<^verbatim>\<open>error\<close>: the interface
  value carries the concrete type even when the pointer is nil.
\<close>

definition as_error :: "OperationTimedOutError option \<Rightarrow> error" where
  "as_error p = Some (TimedOutPtr p)"

text \<open>
  The type assertion \<^verbatim>\<open>err.(*OperationTimedOutError)\<close> in its two-result form: the
  pointer and whether the concrete type of \<open>err\<close> is \<^verbatim>\<open>*OperationTimedOutError\<close>.
\<close>

fun assert_OperationTimedOutError :: "error \<Rightarrow> OperationTimedOutError option \<times> bool" where
  "assert_OperationTimedOutError (Some (TimedOutPtr p)) = (p, True)"
| "assert_OperationTimedOutError _ = (None, False)"

text \<open>
  \<^verbatim>\<open>func IsOperationTimeOutError(err error) bool {
      if _, ok := err.(*OperationTimedOutError); ok { return true }
      return false }\<close>
\<close>

definition IsOperationTimeOutError :: "error \<Rightarrow> bool" where
  "IsOperationTimeOutError err =
     (case assert_OperationTimedOutError err of (_, ok) \<Rightarrow> if ok then True else False)"

subsection \<open>Generated operations\<close>

text \<open>
  The callbacks are closures: they read and write whatever program state they have
  captured. That state is the type variable \<open>'s\<close>. A callback is modelled by what it does
  to the state and whether it returns or panics (every callback is taken to come back to
  its caller one way or the other).
  \<^item> \<^verbatim>\<open>OperationFunc func() (eventErr error, detailedErr error)\<close> returns two errors or
    panics. Its named results are its own variables: when it panics, nothing of them
    reaches the caller.
  \<^item> \<^verbatim>\<open>EventRecorderFunc func(*error)\<close> and \<^verbatim>\<open>CompleteFunc func(*error)\<close> receive the address
    of an error variable: such a function reads the variable and may also assign to it.
    Its result here is whether it returned or panicked, the content of the variable when
    it is done, and the state when it is done. The address is taken not to outlive the
    call.
  A field of function type may hold nil: \<open>None\<close>.
\<close>

type_synonym 's operation = "'s \<Rightarrow> (error \<times> error) outcome \<times> 's"

type_synonym 's hook = "error \<Rightarrow> 's \<Rightarrow> unit outcome \<times> error \<times> 's"

record 's GeneratedOperations =
  OperationName :: string
  OperationFunc :: "'s operation option"
  EventRecorderFunc :: "'s hook option"
  CompleteFunc :: "'s hook option"

text \<open>
  The calls that \<open>Run\<close> makes to the three callbacks, in the order it makes them; a hook
  call is recorded with the content of the error variable the hook finds.
\<close>

datatype call =
    CalledOperationFunc
  | CalledEventRecorderFunc error
  | CalledCompleteFunc error

text \<open>
  The activation of \<open>Run\<close>: its two named results, the panic in flight (if any), the calls
  made so far, and the program state.
\<close>

record 's frame =
  eventErr :: error
  detailedErr :: error
  panicking :: "panic_value option"
  calls :: "call list"
  world :: 's

text \<open>
  A \<^verbatim>\<open>defer\<close> statement evaluates the function value and the arguments at once and pushes
  the call; the three deferred calls of \<open>Run\<close>, each with the function value it has
  captured:
  \<^verbatim>\<open>defer o.CompleteFunc(&detailedErr)\<close>, \<^verbatim>\<open>defer o.EventRecorderFunc(&eventErr)\<close>,
  \<^verbatim>\<open>defer runtime.RecoverFromPanic(&detailedErr)\<close>.
\<close>

datatype 's deferred =
    DeferCompleteFunc "'s hook"
  | DeferEventRecorderFunc "'s hook"
  | DeferRecoverFromPanic

text \<open>
  Modelled from the spec: \<^verbatim>\<open>runtime.RecoverFromPanic\<close> (package
  \<^verbatim>\<open>k8s.io/apimachinery/pkg/util/runtime\<close>) is not among the source files. The
  specification says of it: any panic raised by operationFunc must be intercepted,
  converted into the detailedError output, and must not propagate past the Run call; the
  detailedError returned is non-nil and derived from the panic value. So, given the panic
  in flight and the content of the variable whose address it holds, it gives back the
  panic still in flight (none) and the new content of the variable: the error made of
  the panic value when there was a panic, the old content otherwise.
\<close>

definition RecoverFromPanic :: "panic_value option \<Rightarrow> error \<Rightarrow> panic_value option \<times> error" where
  "RecoverFromPanic p err =
     (case p of None \<Rightarrow> (None, err) | Some v \<Rightarrow> (None, Some (PanicError v)))"

text \<open>
  Calling a hook on a variable of the frame: the hook finds the content of the variable,
  leaves its own content there, changes the state, and a panic of the hook becomes the
  panic in flight.
\<close>

definition after_hook :: "unit outcome \<Rightarrow> panic_value option \<Rightarrow> panic_value option" where
  "after_hook out p = (case out of Returns _ \<Rightarrow> p | Panics v \<Rightarrow> Some v)"

fun run_deferred_call :: "'s deferred \<Rightarrow> 's frame \<Rightarrow> 's frame" where
  "run_deferred_call (DeferCompleteFunc h) fr =
     (case h (detailedErr fr) (world fr) of (out, e, w) \<Rightarrow>
        fr\<lparr>detailedErr := e,
           panicking := after_hook out (panicking fr),
           calls := calls fr @ [CalledCompleteFunc (detailedErr fr)],
           world := w\<rparr>)"
| "run_deferred_call (DeferEventRecorderFunc h) fr =
     (case h (eventErr fr) (world fr) of (out, e, w) \<Rightarrow>
        fr\<lparr>eventErr := e,
           panicking := after_hook out (panicking fr),
           calls := calls fr @ [CalledEventRecorderFunc (eventErr fr)],
           world := w\<rparr>)"
| "run_deferred_call DeferRecoverFromPanic fr =
     (case RecoverFromPanic (panicking fr) (detailedErr fr) of (p, e) \<Rightarrow>
        fr\<lparr>detailedErr := e, panicking := p\<rparr>)"

text \<open>
  When the function body is left, by \<^verbatim>\<open>return\<close> or by a panic, the deferred calls run, the
  last one pushed first (the head of the list), all of them, also while panicking.
\<close>

fun run_deferred :: "'s deferred list \<Rightarrow> 's frame \<Rightarrow> 's frame" where
  "run_deferred [] fr = fr"
| "run_deferred (d # ds) fr = run_deferred ds (run_deferred_call d fr)"

text \<open>
  \<^verbatim>\<open>return o.OperationFunc()\<close>: calling a nil function value panics; a call that returns
  assigns its two results to the named results of \<open>Run\<close>; a call that panics assigns
  nothing.
\<close>

definition return_OperationFunc :: "'s operation option \<Rightarrow> 's frame \<Rightarrow> 's frame" where
  "return_OperationFunc opf fr =
     (case opf of
        None \<Rightarrow> fr\<lparr>panicking := Some NilDereference\<rparr>
      | Some f \<Rightarrow>
          (case f (world fr) of
             (Returns (e1, e2), w) \<Rightarrow>
               fr\<lparr>eventErr := e1, detailedErr := e2,
                  calls := calls fr @ [CalledOperationFunc], world := w\<rparr>
           | (Panics v, w) \<Rightarrow>
               fr\<lparr>panicking := Some v,
                  calls := calls fr @ [CalledOperationFunc], world := w\<rparr>))"

text \<open>
  The frame in which \<open>Run\<close> starts: the named results hold their zero value, nil, and
  nothing has been called.
\<close>

definition entry_frame :: "'s \<Rightarrow> 's frame" where
  "entry_frame s =
     \<lparr>eventErr = None, detailedErr = None, panicking = None, calls = [], world = s\<rparr>"

text \<open>
  \<^verbatim>\<open>func (o *GeneratedOperations) Run() (eventErr, detailedErr error) {
      if o.CompleteFunc != nil { defer o.CompleteFunc(&detailedErr) }
      if o.EventRecorderFunc != nil { defer o.EventRecorderFunc(&eventErr) }
      defer runtime.RecoverFromPanic(&detailedErr)
      return o.OperationFunc() }\<close>

  The receiver is a pointer to a struct that lives in the program state, where the
  callbacks may reach it. It is modelled by the function \<open>this\<close> that reads the struct it
  points to out of a state (a nil receiver, which panics at the first field read, is left
  out). The three fields are read in the state \<open>s\<close> in which \<open>Run\<close> is entered, before any
  callback runs. The result is the frame when the last deferred call is done.
\<close>

definition Run :: "('s \<Rightarrow> 's GeneratedOperations) \<Rightarrow> 's \<Rightarrow> 's frame" where
  "Run this s =
     (let d1 = (case CompleteFunc (this s) of
                  None \<Rightarrow> []
                | Some h \<Rightarrow> [DeferCompleteFunc h]);
          d2 = (case EventRecorderFunc (this s) of
                  None \<Rightarrow> d1
                | Some h \<Rightarrow> DeferEventRecorderFunc h # d1);
          d3 = DeferRecoverFromPanic # d2
      in run_deferred d3 (return_OperationFunc (OperationFunc (this s)) (entry_frame s)))"

text \<open>
  What the caller of \<open>Run\<close> gets: the panic that is still in flight when the deferred calls
  are done, or else the two named results.
\<close>

definition exit_of :: "'s frame \<Rightarrow> (error \<times> error) outcome" where
  "exit_of fr =
     (case panicking fr of Some v \<Rightarrow> Panics v | None \<Rightarrow> Returns (eventErr fr, detailedErr fr))"

text \<open>A pointer to a struct that no callback can reach: every state holds the same \<open>g\<close>.\<close>

definition unshared :: "'s GeneratedOperations \<Rightarrow> 's \<Rightarrow> 's GeneratedOperations" where
  "unshared g s = g"

subsection \<open>Reading the record of calls\<close>

datatype callee = Operation | EventHook | CompletionHook

fun callee_of :: "call \<Rightarrow> callee" where
  "callee_of CalledOperationFunc = Operation"
| "callee_of (CalledEventRecorderFunc e) = EventHook"
| "callee_of (CalledCompleteFunc e) = CompletionHook"

text \<open>The hooks that fired, in order.\<close>

definition fired :: "call list \<Rightarrow> callee list" where
  "fired cs = filter (\<lambda>c. c \<noteq> Operation) (map callee_of cs)"




text \<open>The hook calls a given pair of fields makes, with the contents the hooks find.\<close>

definition event_call :: "'s hook option \<Rightarrow> error \<Rightarrow> call list" where
  "event_call hk e = (case hk of None \<Rightarrow> [] | Some h \<Rightarrow> [CalledEventRecorderFunc e])"

definition complete_call :: "'s hook option \<Rightarrow> error \<Rightarrow> call list" where
  "complete_call hk e = (case hk of None \<Rightarrow> [] | Some h \<Rightarrow> [CalledCompleteFunc e])"

text \<open>
  A hook field behaves as an observer at a call: it is nil, or the hook returns without
  panicking and leaves in the variable what it found there. \<open>world_after\<close> is the state
  it leaves.
\<close>

definition observes :: "'s hook option \<Rightarrow> error \<Rightarrow> 's \<Rightarrow> bool" where
  "observes hk e w =
     (case hk of None \<Rightarrow> True
      | Some h \<Rightarrow> (case h e w of (out, e', w') \<Rightarrow> out = Returns () \<and> e' = e))"


definition world_after :: "'s hook option \<Rightarrow> error \<Rightarrow> 's \<Rightarrow> 's" where
  "world_after hk e w = (case hk of None \<Rightarrow> w | Some h \<Rightarrow> snd (snd (h e w)))"

text \<open>
  The deferred hook calls that two hook fields give, the event hook on top, so that it
  runs first.
\<close>

definition deferred_hooks :: "'s hook option \<Rightarrow> 's hook option \<Rightarrow> 's deferred list" where
  "deferred_hooks ev co =
     (case ev of None \<Rightarrow> [] | Some h \<Rightarrow> [DeferEventRecorderFunc h])
     @ (case co of None \<Rightarrow> [] | Some h \<Rightarrow> [DeferCompleteFunc h])"

subsection \<open>Example callbacks and operations\<close>

text \<open>
  Callbacks over a shared ordered log: each appends its tag, as a test of the hook order
  would have them do.
\<close>

definition log_hook :: "string \<Rightarrow> (string list) hook" where
  "log_hook tag e w = (Returns (), e, w @ [tag])"


text \<open>A hook that panics.\<close>

definition panicking_hook :: "(string list) hook" where
  "panicking_hook e w = (Panics (PanicWith ''hook failed''), e, w)"

definition failing_operation :: "(string list) operation" where
  "failing_operation w =
     (Returns (Some (ErrorString ''attach failed''), Some (ErrorString ''attach failed: rpc error'')),
      w @ [''operation''])"

definition noop_operation :: "(string list) operation" where
  "noop_operation w = (Returns (None, None), w)"

definition panicking_operation :: "(string list) operation" where
  "panicking_operation w = (Panics (PanicWith ''boom''), w @ [''operation''])"

definition logged :: "(string list) operation \<Rightarrow> (string list) GeneratedOperations" where
  "logged f =
     \<lparr>OperationName = ''volume_attach'', OperationFunc = Some f,
      EventRecorderFunc = Some (log_hook ''event''),
      CompleteFunc = Some (log_hook ''completion'')\<rparr>"

definition bare :: "(string list) operation \<Rightarrow> (string list) GeneratedOperations" where
  "bare f =
     \<lparr>OperationName = ''volume_attach'', OperationFunc = Some f,
      EventRecorderFunc = None, CompleteFunc = None\<rparr>"



definition panicking_event :: "(string list) operation \<Rightarrow> (string list) GeneratedOperations" where
  "panicking_event f =
     \<lparr>OperationName = ''volume_attach'', OperationFunc = Some f,
      EventRecorderFunc = Some panicking_hook,
      CompleteFunc = Some (log_hook ''completion'')\<rparr>"






section \<open>Properties of the timeout error\<close>

lemma IsOperationTimeOutError_simps:
  "IsOperationTimeOutError None = False"
  "IsOperationTimeOutError (Some (TimedOutPtr p)) = True"
  "IsOperationTimeOutError (Some (ErrorString m)) = False"
  "IsOperationTimeOutError (Some (WrapError m e)) = False"
  "IsOperationTimeOutError (Some (PanicError v)) = False"
  by (simp_all add: IsOperationTimeOutError_def)

text \<open>
  C6. \<open>IsOperationTimeOutError\<close> is true exactly when the concrete kind of the error is
  the timeout-error pointer type: it is true of \<open>NewOperationTimedOutError m\<close> for every
  message \<open>m\<close>, false of nil, and false of every other kind of error, among them an
  error that wraps a timeout error: nothing is unwrapped.
\<close>

theorem IsOperationTimeOutError_exact_kind:
  "(IsOperationTimeOutError err \<longleftrightarrow> (\<exists>p. err = Some (TimedOutPtr p)))
   \<and> IsOperationTimeOutError (as_error (NewOperationTimedOutError m))
   \<and> \<not> IsOperationTimeOutError None
   \<and> \<not> IsOperationTimeOutError (Some (ErrorString m'))
   \<and> \<not> IsOperationTimeOutError (Some (PanicError v))
   \<and> \<not> IsOperationTimeOutError (Some (WrapError m' (TimedOutPtr q)))
   \<and> \<not> IsOperationTimeOutError (Some (WrapError m' e))"
proof -
  have "IsOperationTimeOutError err \<longleftrightarrow> (\<exists>p. err = Some (TimedOutPtr p))"
  proof (cases err)
    case None
    then show ?thesis by (simp add: IsOperationTimeOutError_simps)
  next
    case (Some e)
    then show ?thesis by (cases e) (simp_all add: IsOperationTimeOutError_simps)
  qed
  then show ?thesis
    by (simp add: IsOperationTimeOutError_simps as_error_def)
qed

text \<open>
  C9. The classification looks at the concrete type only: a nil pointer of type
  \<^verbatim>\<open>*OperationTimedOutError\<close> stored in an \<^verbatim>\<open>error\<close> is classified as a timeout, although
  calling \<^verbatim>\<open>Error\<close> on that pointer dereferences nil and panics.
\<close>

theorem IsOperationTimeOutError_typed_nil:
  "IsOperationTimeOutError (as_error None) \<and> Error None = Panics NilDereference"
  by (simp add: IsOperationTimeOutError_simps as_error_def Error_def)

text \<open>
  C10. Constructor and message accessor form a round trip: for every string \<open>m\<close>,
  \<^verbatim>\<open>NewOperationTimedOutError(m).Error()\<close> returns exactly \<open>m\<close>.
\<close>

theorem NewOperationTimedOutError_Error_roundtrip:
  "Error (NewOperationTimedOutError m) = Returns m"
  by (simp add: Error_def NewOperationTimedOutError_def)

section \<open>Properties of Run\<close>

subsection \<open>The three phases: the call, the recovery, the hooks\<close>

lemma Run_phases:
  "Run this s =
     run_deferred (deferred_hooks (EventRecorderFunc (this s)) (CompleteFunc (this s)))
       (run_deferred_call DeferRecoverFromPanic
          (return_OperationFunc (OperationFunc (this s)) (entry_frame s)))"
  by (simp add: Run_def Let_def deferred_hooks_def split: option.splits)

lemma body_returns:
  assumes "f s = (Returns (e1, e2), s1)"
  shows "run_deferred_call DeferRecoverFromPanic (return_OperationFunc (Some f) (entry_frame s)) =
           \<lparr>eventErr = e1, detailedErr = e2, panicking = None,
            calls = [CalledOperationFunc], world = s1\<rparr>"
  using assms
  by (simp add: return_OperationFunc_def entry_frame_def RecoverFromPanic_def)

lemma body_panics:
  assumes "f s = (Panics v, s1)"
  shows "run_deferred_call DeferRecoverFromPanic (return_OperationFunc (Some f) (entry_frame s)) =
           \<lparr>eventErr = None, detailedErr = Some (PanicError v), panicking = None,
            calls = [CalledOperationFunc], world = s1\<rparr>"
  using assms
  by (simp add: return_OperationFunc_def entry_frame_def RecoverFromPanic_def)

lemma body_nil:
  "run_deferred_call DeferRecoverFromPanic (return_OperationFunc None (entry_frame s)) =
     \<lparr>eventErr = None, detailedErr = Some (PanicError NilDereference), panicking = None,
      calls = [], world = s\<rparr>"
  by (simp add: return_OperationFunc_def entry_frame_def RecoverFromPanic_def)

lemma hooks_calls:
  "calls (run_deferred (deferred_hooks ev co) fr) =
     calls fr @ event_call ev (eventErr fr) @ complete_call co (detailedErr fr)"
  by (cases ev; cases co)
     (simp_all add: deferred_hooks_def event_call_def complete_call_def split: prod.splits)

lemma hooks_exit:
  assumes "panicking fr = None"
    and "observes ev (eventErr fr) (world fr)"
    and "observes co (detailedErr fr) (world_after ev (eventErr fr) (world fr))"
  shows "exit_of (run_deferred (deferred_hooks ev co) fr) = Returns (eventErr fr, detailedErr fr)"
  using assms
  by (cases ev; cases co)
     (simp_all add: deferred_hooks_def observes_def world_after_def exit_of_def after_hook_def
        split: prod.splits)





subsection \<open>The calls and the results of Run\<close>

lemma Run_calls_returns:
  assumes "OperationFunc (this s) = Some f" and "f s = (Returns (e1, e2), s1)"
  shows "calls (Run this s) =
           CalledOperationFunc # event_call (EventRecorderFunc (this s)) e1
           @ complete_call (CompleteFunc (this s)) e2"
  using assms by (simp add: Run_phases body_returns hooks_calls del: run_deferred_call.simps)

lemma Run_calls_panics:
  assumes "OperationFunc (this s) = Some f" and "f s = (Panics v, s1)"
  shows "calls (Run this s) =
           CalledOperationFunc # event_call (EventRecorderFunc (this s)) None
           @ complete_call (CompleteFunc (this s)) (Some (PanicError v))"
  using assms by (simp add: Run_phases body_panics hooks_calls del: run_deferred_call.simps)

lemma Run_calls_nil:
  assumes "OperationFunc (this s) = None"
  shows "calls (Run this s) =
           event_call (EventRecorderFunc (this s)) None
           @ complete_call (CompleteFunc (this s)) (Some (PanicError NilDereference))"
  using assms by (simp add: Run_phases body_nil hooks_calls del: run_deferred_call.simps)

lemma Run_exit_returns:
  assumes "OperationFunc (this s) = Some f" and "f s = (Returns (e1, e2), s1)"
    and "observes (EventRecorderFunc (this s)) e1 s1"
    and "observes (CompleteFunc (this s)) e2 (world_after (EventRecorderFunc (this s)) e1 s1)"
  shows "exit_of (Run this s) = Returns (e1, e2)"
  using assms by (simp add: Run_phases body_returns hooks_exit del: run_deferred_call.simps)



lemma Run_calls_cases:
  obtains (nil) "OperationFunc (this s) = None"
      "calls (Run this s) = event_call (EventRecorderFunc (this s)) None
         @ complete_call (CompleteFunc (this s)) (Some (PanicError NilDereference))"
  | (returns) f e1 e2 s1 where "OperationFunc (this s) = Some f" "f s = (Returns (e1, e2), s1)"
      "calls (Run this s) = CalledOperationFunc # event_call (EventRecorderFunc (this s)) e1
         @ complete_call (CompleteFunc (this s)) e2"
  | (panics) f v s1 where "OperationFunc (this s) = Some f" "f s = (Panics v, s1)"
      "calls (Run this s) = CalledOperationFunc # event_call (EventRecorderFunc (this s)) None
         @ complete_call (CompleteFunc (this s)) (Some (PanicError v))"
proof (cases "OperationFunc (this s)")
  case None
  have "calls (Run this s) = event_call (EventRecorderFunc (this s)) None
         @ complete_call (CompleteFunc (this s)) (Some (PanicError NilDereference))"
    using None by (rule Run_calls_nil)
  with None show ?thesis by (rule nil)
next
  case (Some f)
  obtain out s1 where f: "f s = (out, s1)" by (cases "f s") auto
  show ?thesis
  proof (cases out)
    case (Returns r)
    obtain e1 e2 where "r = (e1, e2)" by (cases r) auto
    with Returns f have "f s = (Returns (e1, e2), s1)" by simp
    with Some have "calls (Run this s) =
        CalledOperationFunc # event_call (EventRecorderFunc (this s)) e1
          @ complete_call (CompleteFunc (this s)) e2"
      by (rule Run_calls_returns)
    with Some \<open>f s = (Returns (e1, e2), s1)\<close> show ?thesis by (rule returns)
  next
    case (Panics v)
    with f have "f s = (Panics v, s1)" by simp
    with Some have "calls (Run this s) =
        CalledOperationFunc # event_call (EventRecorderFunc (this s)) None
          @ complete_call (CompleteFunc (this s)) (Some (PanicError v))"
      by (rule Run_calls_panics)
    with Some \<open>f s = (Panics v, s1)\<close> show ?thesis by (rule panics)
  qed
qed

lemma fired_hook_calls:
  "fired (cs @ event_call ev e @ complete_call co d) =
     fired cs @ (if ev = None then [] else [EventHook]) @ (if co = None then [] else [CompletionHook])"
  by (cases ev; cases co) (simp_all add: fired_def event_call_def complete_call_def)


lemma Run_calls_shape:
  obtains cs e d where "set cs \<subseteq> {CalledOperationFunc}"
    and "calls (Run this s) =
           cs @ event_call (EventRecorderFunc (this s)) e @ complete_call (CompleteFunc (this s)) d"
proof (cases rule: Run_calls_cases [of this s])
  case nil
  then show ?thesis using that [of "[]"] by simp
next
  case (returns f e1 e2 s1)
  then show ?thesis using that [of "[CalledOperationFunc]"] by simp
next
  case (panics f v s1)
  then show ?thesis using that [of "[CalledOperationFunc]"] by simp
qed

lemma fired_operation: "set cs \<subseteq> {CalledOperationFunc} \<Longrightarrow> fired cs = []"
  by (induction cs) (simp_all add: fired_def)

text \<open>
  C3. On every call of \<open>Run\<close>, whether \<open>OperationFunc\<close> returns, panics or is nil, the
  hooks that fire do so in the order event hook, then completion hook: the event hook
  never fires after the completion hook.
\<close>

theorem Run_hook_order:
  "fired (calls (Run this s)) =
       (if EventRecorderFunc (this s) = None then [] else [EventHook])
     @ (if CompleteFunc (this s) = None then [] else [CompletionHook])
   \<and> sorted_wrt (\<lambda>a b. \<not> (a = CompletionHook \<and> b = EventHook)) (fired (calls (Run this s)))"
proof -
  obtain cs e d where cs: "set cs \<subseteq> {CalledOperationFunc}"
    and "calls (Run this s) =
           cs @ event_call (EventRecorderFunc (this s)) e @ complete_call (CompleteFunc (this s)) d"
    by (rule Run_calls_shape)
  then have "fired (calls (Run this s)) =
      fired cs @ (if EventRecorderFunc (this s) = None then [] else [EventHook])
        @ (if CompleteFunc (this s) = None then [] else [CompletionHook])"
    by (simp only: fired_hook_calls)
  with cs have eq: "fired (calls (Run this s)) =
       (if EventRecorderFunc (this s) = None then [] else [EventHook])
     @ (if CompleteFunc (this s) = None then [] else [CompletionHook])"
    by (simp add: fired_operation)
  then show ?thesis by simp
qed

text \<open>
  Two runs over the shared log with both hooks set, one whose operation panics and one
  whose event hook panics as well; and the log that a run leaves.
\<close>

theorem Run_hook_order_witness:
  "fired (calls (Run (unshared (logged panicking_operation)) [])) = [EventHook, CompletionHook]
   \<and> fired (calls (Run (unshared (panicking_event panicking_operation)) [])) = [EventHook, CompletionHook]
   \<and> world (Run (unshared (logged failing_operation)) []) = [''operation'', ''event'', ''completion'']"
proof -
  have "world (Run (unshared (logged failing_operation)) []) = [''operation'', ''event'', ''completion'']"
    by (simp add: Run_def Let_def entry_frame_def unshared_def logged_def failing_operation_def log_hook_def
        return_OperationFunc_def RecoverFromPanic_def after_hook_def)
  with Run_hook_order [of "unshared (logged panicking_operation)" "[]"]
    Run_hook_order [of "unshared (panicking_event panicking_operation)" "[]"]
  show ?thesis
    by (simp add: unshared_def logged_def panicking_event_def)
qed




subsection \<open>An operation that returns\<close>




text \<open>
  C7. With both hook fields nil and an \<open>OperationFunc\<close> that returns \<open>(nil, nil)\<close>, \<open>Run\<close>
  returns \<open>(nil, nil)\<close>, does not panic, and calls no hook.
\<close>

theorem Run_without_hooks_noop:
  assumes "EventRecorderFunc (this s) = None" and "CompleteFunc (this s) = None"
    and "OperationFunc (this s) = Some f" and "fst (f s) = Returns (None, None)"
  shows "exit_of (Run this s) = Returns (None, None)
       \<and> fired (calls (Run this s)) = []
       \<and> calls (Run this s) = [CalledOperationFunc]"
proof -
  obtain s1 where f: "f s = (Returns (None, None), s1)"
    using assms(4) by (cases "f s") auto
  have "observes (EventRecorderFunc (this s)) None s1"
    and "observes (CompleteFunc (this s)) None (world_after (EventRecorderFunc (this s)) None s1)"
    using assms(1,2) by (simp_all add: observes_def)
  with assms(3) f have "exit_of (Run this s) = Returns (None, None)"
    by (rule Run_exit_returns)
  moreover have "calls (Run this s) = [CalledOperationFunc]"
    using Run_calls_returns [of this s f None None s1] assms(1,2,3) f
    by (simp add: event_call_def complete_call_def)
  ultimately show ?thesis by (simp add: fired_def)
qed

theorem Run_without_hooks_noop_witness:
  "exit_of (Run (unshared (bare noop_operation)) []) = Returns (None, None)
   \<and> fired (calls (Run (unshared (bare noop_operation)) [])) = []
   \<and> calls (Run (unshared (bare noop_operation)) []) = [CalledOperationFunc]"
proof -
  have "EventRecorderFunc (unshared (bare noop_operation) []) = None"
    and "CompleteFunc (unshared (bare noop_operation) []) = None"
    and "OperationFunc (unshared (bare noop_operation) []) = Some noop_operation"
    and "fst (noop_operation []) = Returns (None, None)"
    by (simp_all add: unshared_def bare_def noop_operation_def)
  then show ?thesis
    by (rule Run_without_hooks_noop [of "unshared (bare noop_operation)" "[]"])
qed

subsection \<open>An operation that panics\<close>




subsection \<open>What the hooks find\<close>




subsection \<open>The struct behind the receiver\<close>





end
